theory Spec2Isabelle
  imports Complex_Main
begin

section \<open>Calendar dates of the standard library\<close>

text \<open>
  \<^verbatim>\<open>determine_project_status\<close> of \<^verbatim>\<open>src/app.py\<close> calls three operations of Python's
  \<^verbatim>\<open>datetime\<close> module: \<^verbatim>\<open>datetime.strptime(s, "%Y-%m-%d")\<close>, \<^verbatim>\<open>.date()\<close> and the
  subtraction of two dates followed by \<^verbatim>\<open>.days\<close>. They are modelled here after the
  reference implementation (\<^verbatim>\<open>Lib/_pydatetime.py\<close>, \<^verbatim>\<open>Lib/_strptime.py\<close>).
  Python integers are unbounded, hence \<^typ>\<open>int\<close>.
\<close>

record date =
  year :: int
  month :: int
  day :: int

datatype error = ValueError

definition is_leap :: "int \<Rightarrow> bool" where
  "is_leap y \<longleftrightarrow> y mod 4 = 0 \<and> (y mod 100 \<noteq> 0 \<or> y mod 400 = 0)"

definition days_before_year :: "int \<Rightarrow> int" where
  "days_before_year y = (let z = y - 1 in z * 365 + z div 4 - z div 100 + z div 400)"

definition DAYS_IN_MONTH :: "int list" where
  "DAYS_IN_MONTH = [-1, 31, 28, 31, 30, 31, 30, 31, 31, 30, 31, 30, 31]"

definition DAYS_BEFORE_MONTH :: "int list" where
  "DAYS_BEFORE_MONTH = [-1, 0, 31, 59, 90, 120, 151, 181, 212, 243, 273, 304, 334]"

text \<open>Both tables are only read at a month between 1 and 12.\<close>

definition days_in_month :: "int \<Rightarrow> int \<Rightarrow> int" where
  "days_in_month y m = (if m = 2 \<and> is_leap y then 29 else DAYS_IN_MONTH ! nat m)"

definition days_before_month :: "int \<Rightarrow> int \<Rightarrow> int" where
  "days_before_month y m =
     DAYS_BEFORE_MONTH ! nat m + (if m > 2 \<and> is_leap y then 1 else 0)"

definition ymd2ord :: "int \<Rightarrow> int \<Rightarrow> int \<Rightarrow> int" where
  "ymd2ord y m d = days_before_year y + days_before_month y m + d"

definition toordinal :: "date \<Rightarrow> int" where
  "toordinal t = ymd2ord (year t) (month t) (day t)"

text \<open>The checks of the \<^verbatim>\<open>date\<close> constructor: a field out of range raises ValueError.\<close>

definition check_date_fields :: "int \<Rightarrow> int \<Rightarrow> int \<Rightarrow> bool" where
  "check_date_fields y m d \<longleftrightarrow>
     1 \<le> y \<and> y \<le> 9999 \<and> 1 \<le> m \<and> m \<le> 12 \<and> 1 \<le> d \<and> d \<le> days_in_month y m"

definition new_date :: "int \<Rightarrow> int \<Rightarrow> int \<Rightarrow> error + date" where
  "new_date y m d =
     (if check_date_fields y m d then Inr \<lparr>year = y, month = m, day = d\<rparr> else Inl ValueError)"

text \<open>\<^verbatim>\<open>(a - b).days\<close> for two dates: the difference of the ordinals.\<close>

definition days_between :: "date \<Rightarrow> date \<Rightarrow> int" where
  "days_between a b = toordinal a - toordinal b"

text \<open>
  Dates compare as the triples year, month, day (\<^verbatim>\<open>date.__lt__\<close>). The length of a
  year is not a function of the library; it is used to relate this order to ordinals.
\<close>

definition date_lt :: "date \<Rightarrow> date \<Rightarrow> bool" where
  "date_lt a b \<longleftrightarrow>
     year a < year b
     \<or> (year a = year b \<and> (month a < month b \<or> (month a = month b \<and> day a < day b)))"

definition days_in_year :: "int \<Rightarrow> int" where
  "days_in_year y = (if is_leap y then 366 else 365)"

subsection \<open>Strings\<close>

text \<open>
  A Python string is a sequence of Unicode code points. The literals of the program are
  ASCII; \<open>str_of\<close> reads such a literal as a string.
\<close>

type_synonym str = "nat list"

definition str_of :: "string \<Rightarrow> str" where
  "str_of cs = map of_char cs"

text \<open>
  The decimal digits of Unicode (category \<^verbatim>\<open>Nd\<close>) are what \<^verbatim>\<open>\d\<close> matches in a string
  pattern and what \<^verbatim>\<open>int\<close> converts. They come in runs of ten consecutive code points,
  the digits zero to nine of one script; the table lists the code point of the zero of
  every run, for Unicode 14.0.0 (the database of CPython 3.11). The first run is ASCII
  \<^verbatim>\<open>0\<close> to \<^verbatim>\<open>9\<close>; 65296 is the fullwidth zero, 1632 the Arabic-Indic zero.
\<close>

definition decimal_zeros :: "nat list" where
  "decimal_zeros =
     [48, 1632, 1776, 1984, 2406, 2534, 2662, 2790, 2918,
      3046, 3174, 3302, 3430, 3558, 3664, 3792, 3872, 4160,
      4240, 6112, 6160, 6470, 6608, 6784, 6800, 6992, 7088,
      7232, 7248, 42528, 43216, 43264, 43472, 43504, 43600, 44016,
      65296, 66720, 68912, 69734, 69872, 69942, 70096, 70384, 70736,
      70864, 71248, 71360, 71472, 71904, 72016, 72784, 73040, 73120,
      92768, 92864, 93008, 120782, 120792, 120802, 120812, 120822, 123200,
      123632, 125264, 130032]"

definition decimal_value :: "nat \<Rightarrow> nat option" where
  "decimal_value c =
     map_option (\<lambda>z. c - z) (find (\<lambda>z. z \<le> c \<and> c < z + 10) decimal_zeros)"

definition is_decimal :: "nat \<Rightarrow> bool" where
  "is_decimal c \<longleftrightarrow> decimal_value c \<noteq> None"

subsection \<open>Parsing with the format \<^verbatim>\<open>%Y-%m-%d\<close>\<close>

text \<open>
  \<^verbatim>\<open>_strptime\<close> turns the format into a regular expression and matches it at the start
  of the string with Python's backtracking matcher:
  \<^verbatim>\<open>(?P<Y>\d\d\d\d)-(?P<m>1[0-2]|0[1-9]|[1-9])-(?P<d>3[0-1]|[1-2]\d|0[1-9]|[1-9]| [1-9])\<close>.
  A matcher is modelled as the list of its successes, in the order in which backtracking
  tries them; each success is the matched text and the rest of the input. A bracketed
  class such as \<^verbatim>\<open>[1-9]\<close> holds ASCII characters only; \<^verbatim>\<open>\d\<close> is any decimal digit.
\<close>

type_synonym matcher = "str \<Rightarrow> (str \<times> str) list"

fun sat :: "(nat \<Rightarrow> bool) \<Rightarrow> matcher" where
  "sat P [] = []"
| "sat P (c # r) = (if P c then [([c], r)] else [])"

definition one_of :: "string \<Rightarrow> matcher" where
  "one_of cls = sat (\<lambda>c. c \<in> set (str_of cls))"

definition seq :: "matcher \<Rightarrow> matcher \<Rightarrow> matcher" where
  "seq p q s = concat (map (\<lambda>(a, r). map (\<lambda>(b, r'). (a @ b, r')) (q r)) (p s))"

definition alt :: "matcher \<Rightarrow> matcher \<Rightarrow> matcher" where
  "alt p q s = p s @ q s"

definition digit :: matcher where
  "digit = sat is_decimal"

definition re_Y :: matcher where
  "re_Y = seq digit (seq digit (seq digit digit))"

definition re_m :: matcher where
  "re_m = alt (seq (one_of ''1'') (one_of ''012''))
         (alt (seq (one_of ''0'') (one_of ''123456789''))
              (one_of ''123456789''))"

definition re_d :: matcher where
  "re_d = alt (seq (one_of ''3'') (one_of ''01''))
         (alt (seq (one_of ''12'') digit)
         (alt (seq (one_of ''0'') (one_of ''123456789''))
         (alt (one_of ''123456789'')
              (seq (one_of '' '') (one_of ''123456789'')))))"

text \<open>All matches of the whole expression: the three groups and the unconsumed rest.\<close>

definition format_regex :: "str \<Rightarrow> ((str \<times> str \<times> str) \<times> str) list" where
  "format_regex s =
     concat (map (\<lambda>(y, r1).
     concat (map (\<lambda>(_, r2).
     concat (map (\<lambda>(m, r3).
     concat (map (\<lambda>(_, r4).
             map (\<lambda>(d, r5). ((y, m, d), r5)) (re_d r4))
       (one_of ''-'' r3)))
       (re_m r2)))
       (one_of ''-'' r1)))
       (re_Y s))"

text \<open>
  \<^verbatim>\<open>int(text)\<close> on a group of the expression: decimal digits of any script, after an
  optional blank (code point 32), which \<^verbatim>\<open>int\<close> strips. A group holds nothing else.
\<close>

definition digit_value :: "nat \<Rightarrow> int" where
  "digit_value c = (case decimal_value c of Some v \<Rightarrow> int v | None \<Rightarrow> 0)"

definition int_of :: "str \<Rightarrow> int" where
  "int_of s = foldl (\<lambda>n c. 10 * n + digit_value c) 0 (dropWhile (\<lambda>c. c = 32) s)"

text \<open>
  \<^verbatim>\<open>datetime.strptime(s, "%Y-%m-%d").date()\<close>: no match raises ValueError, a match that
  leaves text over raises ValueError (unconverted data remains), and so does a year,
  month and day that is no date.
\<close>

definition strptime :: "str \<Rightarrow> error + date" where
  "strptime s =
     (case format_regex s of
        [] \<Rightarrow> Inl ValueError
      | ((y, m, d), rest) # _ \<Rightarrow>
          if rest \<noteq> [] then Inl ValueError
          else new_date (int_of y) (int_of m) (int_of d))"

section \<open>The status classifier\<close>

text \<open>
  \<^verbatim>\<open>determine_project_status(target_date_str, progress, evaluation_date)\<close>. The status
  is the string the source returns, the colour its list of four integers.
\<close>

definition determine_project_status ::
  "str \<Rightarrow> int \<Rightarrow> date \<Rightarrow> error + (string \<times> int list)" where
  "determine_project_status target_date_str progress evaluation_date =
     (case strptime target_date_str of
        Inl e \<Rightarrow> Inl e
      | Inr target_date \<Rightarrow>
          (let days_remaining = days_between target_date evaluation_date in
           if progress \<ge> 100 then Inr (''Completed'', [0, 255, 0, 160])
           else if days_remaining < 0 then Inr (''Delayed'', [255, 0, 0, 160])
           else if days_remaining \<le> 30 \<and> progress < 80 then Inr (''At Risk'', [255, 165, 0, 160])
           else Inr (''On Track'', [0, 150, 255, 160])))"

section \<open>The dashboard: data, map layer and directory\<close>

text \<open>
  The mock \<^verbatim>\<open>data\<close> dictionary of the first tab, one list per column, and the frame
  \<^verbatim>\<open>pd.DataFrame(data)\<close> built from it: row \<open>i\<close> holds the \<open>i\<close>-th entry of every
  column. Coordinates are only carried along, never computed with.
\<close>

record row =
  project_name :: string
  lat :: real
  lon :: real
  target_date :: str
  progress_pct :: int

record classified_row = row +
  status :: string
  color :: "int list"

definition data_project_name :: "string list" where
  "data_project_name =
     [''Brgy. San Jose Road Concreting'', ''Sta. Cruz Repair Phase 2'', ''Mandurriao-Jaro Link'']"

definition data_lat :: "real list" where
  "data_lat = [10.7202, 10.7310, 10.7150]"

definition data_lon :: "real list" where
  "data_lon = [122.5621, 122.5500, 122.5400]"

definition data_target_date :: "str list" where
  "data_target_date = [str_of ''2026-03-15'', str_of ''2026-02-10'', str_of ''2025-12-01'']"

definition data_progress_pct :: "int list" where
  "data_progress_pct = [60, 40, 100]"

definition df :: "row list" where
  "df = map (\<lambda>i. \<lparr>project_name = data_project_name ! i, lat = data_lat ! i,
                    lon = data_lon ! i, target_date = data_target_date ! i,
                    progress_pct = data_progress_pct ! i\<rparr>) [0..<3]"

text \<open>
  \<^verbatim>\<open>df.apply(lambda row: pd.Series(determine_project_status(row['target_date'],
  row['progress_pct'], simulated_date)), axis=1)\<close> on a frame that has rows: the classifier
  is applied to the rows in order, and the first exception ends the whole pass.
\<close>

fun apply_axis1 :: "date \<Rightarrow> row list \<Rightarrow> error + classified_row list" where
  "apply_axis1 simulated_date [] = Inr []"
| "apply_axis1 simulated_date (r # rs) =
     (case determine_project_status (target_date r) (progress_pct r) simulated_date of
        Inl e \<Rightarrow> Inl e
      | Inr (st, col) \<Rightarrow>
          (case apply_axis1 simulated_date rs of
             Inl e \<Rightarrow> Inl e
           | Inr cs \<Rightarrow> Inr (row.extend r \<lparr>status = st, color = col\<rparr> # cs)))"

text \<open>
  The statement \<^verbatim>\<open>df[['status', 'color']] = df.apply(...)\<close>. On a frame without rows
  \<^verbatim>\<open>apply\<close> calls nothing and returns a copy of the frame; its five columns do not fit
  the two keys and the assignment raises ValueError.
\<close>

definition df_apply :: "date \<Rightarrow> row list \<Rightarrow> error + classified_row list" where
  "df_apply simulated_date rows =
     (if rows = [] then Inl ValueError else apply_axis1 simulated_date rows)"

text \<open>
  The scatterplot layer (\<^verbatim>\<open>get_position='[lon, lat]'\<close>, \<^verbatim>\<open>get_color='color'\<close>,
  \<^verbatim>\<open>get_radius=300\<close>) as the list of markers it describes, and the project directory
  \<^verbatim>\<open>df[['project_name', 'status', 'progress_pct', 'target_date', 'lat', 'lon']]\<close>.
\<close>

record marker =
  get_position :: "real \<times> real"
  get_color :: "int list"
  get_radius :: int

definition scatterplot_layer :: "classified_row list \<Rightarrow> marker list" where
  "scatterplot_layer cs =
     map (\<lambda>r. \<lparr>get_position = (lon r, lat r), get_color = color r, get_radius = 300\<rparr>) cs"

definition directory_columns :: "string list" where
  "directory_columns =
     [''project_name'', ''status'', ''progress_pct'', ''target_date'', ''lat'', ''lon'']"

definition project_directory ::
  "classified_row list \<Rightarrow> (string \<times> string \<times> int \<times> str \<times> real \<times> real) list" where
  "project_directory cs =
     map (\<lambda>r. (project_name r, status r, progress_pct r, target_date r, lat r, lon r)) cs"

section \<open>Notions of the specification\<close>

text \<open>
  A colour is a list red, green, blue, alpha with components from 0 to 255; it is fully
  opaque when alpha is 255.
\<close>

definition fully_opaque :: "int list \<Rightarrow> bool" where
  "fully_opaque c \<longleftrightarrow> length c = 4 \<and> c ! 3 = 255"






section \<open>Evaluation on concrete inputs\<close>

lemmas date_eval =
  toordinal_def ymd2ord_def days_before_year_def days_before_month_def DAYS_BEFORE_MONTH_def
  days_between_def is_leap_def

lemmas strptime_eval =
  str_of_def strptime_def format_regex_def re_Y_def re_m_def re_d_def seq_def alt_def
  one_of_def digit_def is_decimal_def decimal_value_def decimal_zeros_def
  int_of_def digit_value_def new_date_def check_date_fields_def days_in_month_def
  DAYS_IN_MONTH_def is_leap_def

lemma strptime_2025_12_01: "strptime (str_of ''2025-12-01'') = Inr \<lparr>year = 2025, month = 12, day = 1\<rparr>"
  by (simp add: strptime_eval)

lemma strptime_2026_02_10: "strptime (str_of ''2026-02-10'') = Inr \<lparr>year = 2026, month = 2, day = 10\<rparr>"
  by (simp add: strptime_eval)

lemma strptime_2026_03_15: "strptime (str_of ''2026-03-15'') = Inr \<lparr>year = 2026, month = 3, day = 15\<rparr>"
  by (simp add: strptime_eval)

text \<open>Digits of other scripts are read as the library reads them: fullwidth and Arabic-Indic.\<close>

lemma strptime_fullwidth_year:
  "strptime [65298, 65296, 65298, 65302, 45, 48, 51, 45, 49, 53]
     = Inr \<lparr>year = 2026, month = 3, day = 15\<rparr>"
  by (simp add: strptime_eval)

lemma strptime_arabic_indic_day:
  "strptime (str_of ''2026-03-1'' @ [1637]) = Inr \<lparr>year = 2026, month = 3, day = 15\<rparr>"
  by (simp add: strptime_eval)

lemma toordinal_2025_12_01: "toordinal \<lparr>year = 2025, month = 12, day = 1\<rparr> = 739586"
  by (simp add: date_eval)

lemma toordinal_2026_02_10: "toordinal \<lparr>year = 2026, month = 2, day = 10\<rparr> = 739657"
  by (simp add: date_eval)

lemma toordinal_2026_03_15: "toordinal \<lparr>year = 2026, month = 3, day = 15\<rparr> = 739690"
  by (simp add: date_eval)

section \<open>The decision rule\<close>

text \<open>
  The four branches of the classifier, once the target date string has been parsed.
  This is the body of \<^const>\<open>determine_project_status\<close> below its first line.
\<close>

lemma determine_project_status_parsed:
  assumes "strptime s = Inr t"
  shows "determine_project_status s p e =
           (if p \<ge> 100 then Inr (''Completed'', [0, 255, 0, 160])
            else if days_between t e < 0 then Inr (''Delayed'', [255, 0, 0, 160])
            else if days_between t e \<le> 30 \<and> p < 80 then Inr (''At Risk'', [255, 165, 0, 160])
            else Inr (''On Track'', [0, 150, 255, 160]))"
  using assms by (simp add: determine_project_status_def Let_def)

lemma determine_project_status_error:
  assumes "strptime s = Inl x"
  shows "determine_project_status s p e = Inl x"
  using assms by (simp add: determine_project_status_def)

text \<open>
  C1. Whenever the progress is at least 100, the classifier returns the status
  Completed, whatever the target date (a date string that parses) and whatever the
  evaluation date; a target date in the past makes no difference, since the first
  branch is taken before the days are looked at.
\<close>

theorem completed_regardless_of_dates:
  assumes "strptime s = Inr t" and "p \<ge> 100"
  shows "\<exists>c. determine_project_status s p e = Inr (''Completed'', c)"
  using assms by (simp add: determine_project_status_parsed)

theorem completed_regardless_of_dates_witness:
  "strptime (str_of ''2025-12-01'') = Inr \<lparr>year = 2025, month = 12, day = 1\<rparr> \<and> (100::int) \<ge> 100
   \<and> days_between \<lparr>year = 2025, month = 12, day = 1\<rparr> \<lparr>year = 2025, month = 12, day = 2\<rparr> = -1
   \<and> (\<exists>c. determine_project_status (str_of ''2025-12-01'') 100 \<lparr>year = 2025, month = 12, day = 2\<rparr>
          = Inr (''Completed'', c))"
proof -
  have h: "strptime (str_of ''2025-12-01'') = Inr \<lparr>year = 2025, month = 12, day = 1\<rparr>"
    by (simp add: strptime_eval)
  have d: "days_between \<lparr>year = 2025, month = 12, day = 1\<rparr> \<lparr>year = 2025, month = 12, day = 2\<rparr> = -1"
    by (simp add: date_eval)
  from completed_regardless_of_dates [OF h, of 100 "\<lparr>year = 2025, month = 12, day = 2\<rparr>"] h d
  show ?thesis by simp
qed

text \<open>
  C2. With progress below 100 and a target date strictly before the evaluation date
  (a negative difference in days), the classifier returns the status Delayed.
\<close>

theorem delayed_when_target_passed:
  assumes "strptime s = Inr t" and "p < 100" and "days_between t e < 0"
  shows "\<exists>c. determine_project_status s p e = Inr (''Delayed'', c)"
  using assms by (simp add: determine_project_status_parsed)

theorem delayed_when_target_passed_witness:
  "strptime (str_of ''2026-02-10'') = Inr \<lparr>year = 2026, month = 2, day = 10\<rparr> \<and> (40::int) < 100
   \<and> days_between \<lparr>year = 2026, month = 2, day = 10\<rparr> \<lparr>year = 2026, month = 2, day = 11\<rparr> < 0
   \<and> (\<exists>c. determine_project_status (str_of ''2026-02-10'') 40 \<lparr>year = 2026, month = 2, day = 11\<rparr>
          = Inr (''Delayed'', c))"
proof -
  have h: "strptime (str_of ''2026-02-10'') = Inr \<lparr>year = 2026, month = 2, day = 10\<rparr>"
    by (simp add: strptime_eval)
  have d: "days_between \<lparr>year = 2026, month = 2, day = 10\<rparr> \<lparr>year = 2026, month = 2, day = 11\<rparr> < 0"
    by (simp add: date_eval)
  from delayed_when_target_passed [OF h _ d, of 40] h d
  show ?thesis by simp
qed

text \<open>
  C3. With progress below 100 and below 80, and a target date between 0 and 30 days
  (both included) after the evaluation date, the classifier returns the status At Risk.
\<close>

theorem at_risk_within_thirty_days:
  assumes "strptime s = Inr t" and "p < 100" and "p < 80"
    and "0 \<le> days_between t e" and "days_between t e \<le> 30"
  shows "\<exists>c. determine_project_status s p e = Inr (''At Risk'', c)"
  using assms by (simp add: determine_project_status_parsed)

theorem at_risk_within_thirty_days_witness:
  "strptime (str_of ''2026-03-15'') = Inr \<lparr>year = 2026, month = 3, day = 15\<rparr>
   \<and> (79::int) < 100 \<and> (79::int) < 80
   \<and> days_between \<lparr>year = 2026, month = 3, day = 15\<rparr> \<lparr>year = 2026, month = 2, day = 13\<rparr> = 30
   \<and> (\<exists>c. determine_project_status (str_of ''2026-03-15'') 79 \<lparr>year = 2026, month = 2, day = 13\<rparr>
          = Inr (''At Risk'', c))"
proof -
  have h: "strptime (str_of ''2026-03-15'') = Inr \<lparr>year = 2026, month = 3, day = 15\<rparr>"
    by (simp add: strptime_eval)
  have d: "days_between \<lparr>year = 2026, month = 3, day = 15\<rparr> \<lparr>year = 2026, month = 2, day = 13\<rparr> = 30"
    by (simp add: date_eval)
  from at_risk_within_thirty_days [OF h, of 79 "\<lparr>year = 2026, month = 2, day = 13\<rparr>"] h d
  show ?thesis by simp
qed

text \<open>
  C4. With progress below 100, when neither the Delayed rule (negative days) nor the
  At Risk rule (at most 30 days and progress below 80) applies, the classifier returns
  the status On Track. In particular at exactly 30 days and progress exactly 80 the
  status is On Track and not At Risk: the progress bound of the At Risk rule is strict.
\<close>

theorem on_track_otherwise:
  assumes "strptime s = Inr t"
  shows "(p < 100 \<and> \<not> days_between t e < 0 \<and> \<not> (days_between t e \<le> 30 \<and> p < 80)
            \<longrightarrow> (\<exists>c. determine_project_status s p e = Inr (''On Track'', c)))
         \<and> (days_between t e = 30
            \<longrightarrow> (\<exists>c. determine_project_status s 80 e = Inr (''On Track'', c))
              \<and> (\<forall>c. determine_project_status s 80 e \<noteq> Inr (''At Risk'', c)))"
  using assms by (simp add: determine_project_status_parsed)

theorem on_track_otherwise_witness:
  "strptime (str_of ''2026-03-15'') = Inr \<lparr>year = 2026, month = 3, day = 15\<rparr>
   \<and> days_between \<lparr>year = 2026, month = 3, day = 15\<rparr> \<lparr>year = 2026, month = 2, day = 13\<rparr> = 30
   \<and> (80::int) < 100
   \<and> (\<exists>c. determine_project_status (str_of ''2026-03-15'') 80 \<lparr>year = 2026, month = 2, day = 13\<rparr>
          = Inr (''On Track'', c))
   \<and> (\<forall>c. determine_project_status (str_of ''2026-03-15'') 80 \<lparr>year = 2026, month = 2, day = 13\<rparr>
          \<noteq> Inr (''At Risk'', c))"
proof -
  have h: "strptime (str_of ''2026-03-15'') = Inr \<lparr>year = 2026, month = 3, day = 15\<rparr>"
    by (simp add: strptime_eval)
  have d: "days_between \<lparr>year = 2026, month = 3, day = 15\<rparr> \<lparr>year = 2026, month = 2, day = 13\<rparr> = 30"
    by (simp add: date_eval)
  from on_track_otherwise [OF h, of 80 "\<lparr>year = 2026, month = 2, day = 13\<rparr>"] h d
  show ?thesis by simp
qed

section \<open>The calendar-date format\<close>

subsection \<open>ASCII digits under the matcher\<close>










subsection \<open>Every string in the format is parsed\<close>









section \<open>Status and colour\<close>

lemma determine_project_status_cases:
  assumes "determine_project_status s p e = Inr (st, c)"
  shows "(st, c) \<in> {(''Completed'', [0, 255, 0, 160]), (''Delayed'', [255, 0, 0, 160]),
                    (''At Risk'', [255, 165, 0, 160]), (''On Track'', [0, 150, 255, 160])}"
proof (cases "strptime s")
  case (Inl x)
  with assms show ?thesis by (simp add: determine_project_status_error)
next
  case (Inr t)
  from assms show ?thesis
    unfolding determine_project_status_parsed [OF Inr]
    by (simp split: if_splits)
qed

text \<open>
  C5, as stated: every status has a fixed, fully opaque colour. This fails: the colour
  returned with Completed has alpha 160, not 255.
\<close>

theorem completed_color_not_fully_opaque:
  "determine_project_status (str_of ''2025-12-01'') 100 \<lparr>year = 2025, month = 11, day = 1\<rparr>
     = Inr (''Completed'', [0, 255, 0, 160])
   \<and> \<not> fully_opaque [0, 255, 0, 160]"
  by (simp add: determine_project_status_parsed [OF strptime_2025_12_01] fully_opaque_def)

text \<open>
  C5, amended. The colour depends on the status only (two results with the same status
  have the same colour), and each status has one fixed colour with alpha 160 of 255:
  green (0, 255, 0) for Completed, red (255, 0, 0) for Delayed, orange (255, 165, 0) for
  At Risk and blue (0, 150, 255) for On Track.
\<close>

theorem color_fixed_by_status:
  assumes "determine_project_status s p e = Inr (st, c)"
    and "determine_project_status s' p' e' = Inr (st', c')"
  shows "(st = st' \<longrightarrow> c = c')
         \<and> (st = ''Completed'' \<and> c = [0, 255, 0, 160]
            \<or> st = ''Delayed'' \<and> c = [255, 0, 0, 160]
            \<or> st = ''At Risk'' \<and> c = [255, 165, 0, 160]
            \<or> st = ''On Track'' \<and> c = [0, 150, 255, 160])
         \<and> length c = 4 \<and> c ! 3 = 160"
proof -
  from determine_project_status_cases [OF assms(1)]
  have 1: "st = ''Completed'' \<and> c = [0, 255, 0, 160]
            \<or> st = ''Delayed'' \<and> c = [255, 0, 0, 160]
            \<or> st = ''At Risk'' \<and> c = [255, 165, 0, 160]
            \<or> st = ''On Track'' \<and> c = [0, 150, 255, 160]" by simp
  from determine_project_status_cases [OF assms(2)]
  have 2: "st' = ''Completed'' \<and> c' = [0, 255, 0, 160]
            \<or> st' = ''Delayed'' \<and> c' = [255, 0, 0, 160]
            \<or> st' = ''At Risk'' \<and> c' = [255, 165, 0, 160]
            \<or> st' = ''On Track'' \<and> c' = [0, 150, 255, 160]" by simp
  from 1 have 3: "length c = 4 \<and> c ! 3 = 160" by auto
  from 1 2 have "st = st' \<longrightarrow> c = c'" by (elim disjE conjE; simp)
  with 1 3 show ?thesis by blast
qed

theorem color_fixed_by_status_witness:
  "determine_project_status (str_of ''2025-12-01'') 100 \<lparr>year = 2025, month = 11, day = 1\<rparr>
     = Inr (''Completed'', [0, 255, 0, 160])
   \<and> determine_project_status (str_of ''2026-03-15'') 120 \<lparr>year = 2027, month = 1, day = 1\<rparr>
     = Inr (''Completed'', [0, 255, 0, 160])
   \<and> length [0, 255, 0, 160 :: int] = 4 \<and> [0, 255, 0, 160 :: int] ! 3 = 160"
proof -
  have a: "determine_project_status (str_of ''2025-12-01'') 100 \<lparr>year = 2025, month = 11, day = 1\<rparr>
     = Inr (''Completed'', [0, 255, 0, 160])"
    by (simp add: determine_project_status_parsed [OF strptime_2025_12_01])
  have b: "determine_project_status (str_of ''2026-03-15'') 120 \<lparr>year = 2027, month = 1, day = 1\<rparr>
     = Inr (''Completed'', [0, 255, 0, 160])"
    by (simp add: determine_project_status_parsed [OF strptime_2026_03_15])
  from color_fixed_by_status [OF a b] a b show ?thesis by simp
qed

section \<open>The map layer and the directory\<close>

text \<open>
  C8. For every sequence of classified rows, the directory has one row per input row, in
  the order of the input, made of the six columns project name, status, progress, target
  date, latitude and longitude of that row (nothing is sorted, dropped or merged), and the
  map layer has one marker per row whose fill colour is the colour of that row.
\<close>

theorem presenter_one_to_one:
  "length (project_directory cs) = length cs
   \<and> (\<forall>i<length cs. project_directory cs ! i =
          (project_name (cs ! i), status (cs ! i), progress_pct (cs ! i),
           target_date (cs ! i), lat (cs ! i), lon (cs ! i)))
   \<and> directory_columns =
        [''project_name'', ''status'', ''progress_pct'', ''target_date'', ''lat'', ''lon'']
   \<and> length (scatterplot_layer cs) = length cs
   \<and> (\<forall>i<length cs. get_color (scatterplot_layer cs ! i) = color (cs ! i)
          \<and> get_position (scatterplot_layer cs ! i) = (lon (cs ! i), lat (cs ! i)))"
  by (simp add: project_directory_def scatterplot_layer_def directory_columns_def)

theorem presenter_one_to_one_witness:
  "project_directory
     [\<lparr>project_name = ''B'', lat = 2, lon = 1, target_date = (str_of ''2026-02-10''), progress_pct = 40,
        status = ''On Track'', color = [0, 150, 255, 160]\<rparr>,
      \<lparr>project_name = ''A'', lat = 4, lon = 3, target_date = (str_of ''2025-12-01''), progress_pct = 100,
        status = ''Completed'', color = [0, 255, 0, 160]\<rparr>] ! 1
     = (''A'', ''Completed'', 100, (str_of ''2025-12-01''), 4, 3)
   \<and> get_color (scatterplot_layer
     [\<lparr>project_name = ''B'', lat = 2, lon = 1, target_date = (str_of ''2026-02-10''), progress_pct = 40,
        status = ''On Track'', color = [0, 150, 255, 160]\<rparr>,
      \<lparr>project_name = ''A'', lat = 4, lon = 3, target_date = (str_of ''2025-12-01''), progress_pct = 100,
        status = ''Completed'', color = [0, 255, 0, 160]\<rparr>] ! 1) = [0, 255, 0, 160]"
  using presenter_one_to_one [of
     "[\<lparr>project_name = ''B'', lat = 2, lon = 1, target_date = (str_of ''2026-02-10''), progress_pct = 40,
        status = ''On Track'', color = [0, 150, 255, 160]\<rparr>,
      \<lparr>project_name = ''A'', lat = 4, lon = 3, target_date = (str_of ''2025-12-01''), progress_pct = 100,
        status = ''Completed'', color = [0, 255, 0, 160]\<rparr>]"]
  by simp

section \<open>The order of dates and their ordinals\<close>

lemma div_step:
  assumes "0 < (k::int)"
  shows "y div k = (y - 1) div k + (if y mod k = 0 then 1 else 0)"
proof -
  define q where "q = (y - 1) div k"
  define r where "r = (y - 1) mod k"
  have y: "y = k * q + (r + 1)" unfolding q_def r_def by simp
  have r: "0 \<le> r" "r < k" unfolding r_def using assms by simp_all
  show ?thesis
  proof (cases "r + 1 = k")
    case True
    then have "y = k * (q + 1)" using y by (simp add: algebra_simps)
    then have "y div k = q + 1" "y mod k = 0" using assms by simp_all
    then show ?thesis by (simp add: q_def)
  next
    case False
    with r have r1: "0 \<le> r + 1" "r + 1 < k" by simp_all
    have "y div k = q" using y r1 by (rule int_div_pos_eq)
    moreover have "y mod k = r + 1" using y r1 by (rule int_mod_pos_eq)
    ultimately show ?thesis using r by (simp add: q_def)
  qed
qed

lemma days_before_year_Suc: "days_before_year (y + 1) = days_before_year y + days_in_year y"
proof -
  define p4 where "p4 \<longleftrightarrow> y mod 4 = 0"
  define p100 where "p100 \<longleftrightarrow> y mod 100 = 0"
  define p400 where "p400 \<longleftrightarrow> y mod 400 = 0"
  define e4 :: int where "e4 = (if p4 then 1 else 0)"
  define e100 :: int where "e100 = (if p100 then 1 else 0)"
  define e400 :: int where "e400 = (if p400 then 1 else 0)"
  define P4 P100 P400 where "P4 = y div 4" and "P100 = y div 100" and "P400 = y div 400"
  define Q4 Q100 Q400 where "Q4 = (y - 1) div 4" and "Q100 = (y - 1) div 100"
    and "Q400 = (y - 1) div 400"
  have a: "P4 = Q4 + e4"
    unfolding P4_def Q4_def e4_def p4_def by (rule div_step) simp
  have b: "P100 = Q100 + e100"
    unfolding P100_def Q100_def e100_def p100_def by (rule div_step) simp
  have c: "P400 = Q400 + e400"
    unfolding P400_def Q400_def e400_def p400_def by (rule div_step) simp
  have m1: "p4" if "p100"
    using that mod_mod_cancel [of 4 100 y] unfolding p4_def p100_def by simp
  have m2: "p100" if "p400"
    using that mod_mod_cancel [of 100 400 y] unfolding p100_def p400_def by simp
  have "is_leap y \<longleftrightarrow> p4 \<and> (\<not> p100 \<or> p400)"
    unfolding is_leap_def p4_def p100_def p400_def ..
  then have k: "days_in_year y = 365 + e4 - e100 + e400"
    unfolding days_in_year_def e4_def e100_def e400_def
    using m1 m2 by (cases p4; cases p100; cases p400; simp)
  have "y + 1 - 1 = y" by simp
  then have 1: "days_before_year (y + 1) = y * 365 + P4 - P100 + P400"
    unfolding days_before_year_def Let_def P4_def P100_def P400_def by (simp only:)
  have 2: "days_before_year y = (y - 1) * 365 + Q4 - Q100 + Q400"
    unfolding days_before_year_def Let_def Q4_def Q100_def Q400_def ..
  show ?thesis unfolding 1 2 k a b c by (simp add: algebra_simps)
qed

lemma days_in_year_pos: "0 < days_in_year y"
  by (simp add: days_in_year_def)

lemma days_before_year_mono:
  assumes "y < y'"
  shows "days_before_year y + days_in_year y \<le> days_before_year y'"
  using assms
proof (induction y' rule: int_gr_induct)
  case base
  then show ?case by (simp add: days_before_year_Suc)
next
  case (step i)
  then show ?case using days_before_year_Suc [of i] days_in_year_pos [of i] by simp
qed

lemma month_cases:
  assumes "1 \<le> m" and "m \<le> 12"
  shows "m = 1 \<or> m = 2 \<or> m = 3 \<or> m = 4 \<or> m = 5 \<or> m = 6 \<or> m = 7 \<or> m = 8 \<or> m = 9
         \<or> m = 10 \<or> m = 11 \<or> m = (12::int)"
  using assms by arith

lemma days_before_month_Suc:
  assumes "1 \<le> m" and "m \<le> 11"
  shows "days_before_month y (m + 1) = days_before_month y m + days_in_month y m"
proof -
  from assms have "m = 1 \<or> m = 2 \<or> m = 3 \<or> m = 4 \<or> m = 5 \<or> m = 6 \<or> m = 7 \<or> m = 8 \<or> m = 9
         \<or> m = 10 \<or> m = (11::int)" by arith
  then show ?thesis
    by (elim disjE; simp add: days_before_month_def days_in_month_def DAYS_BEFORE_MONTH_def
        DAYS_IN_MONTH_def)
qed

lemma days_in_month_pos:
  assumes "1 \<le> m" and "m \<le> 12"
  shows "28 \<le> days_in_month y m"
  using month_cases [OF assms]
  by (elim disjE; simp add: days_in_month_def DAYS_IN_MONTH_def)

lemma days_before_month_mono:
  assumes "1 \<le> m" and "m < m'" and "m' \<le> 12"
  shows "days_before_month y m + days_in_month y m \<le> days_before_month y m'"
  using assms(2,1,3)
proof (induction m' rule: int_gr_induct)
  case base
  then show ?case by (simp add: days_before_month_Suc)
next
  case (step i)
  then show ?case
    using days_before_month_Suc [of i y] days_in_month_pos [of i y] by simp
qed

lemma days_before_month_nonneg:
  assumes "1 \<le> m" and "m \<le> 12"
  shows "0 \<le> days_before_month y m"
  using month_cases [OF assms]
  by (elim disjE; simp add: days_before_month_def DAYS_BEFORE_MONTH_def)

lemma day_of_year_le:
  assumes "1 \<le> m" and "m \<le> 12" and "d \<le> days_in_month y m"
  shows "days_before_month y m + d \<le> days_in_year y"
proof -
  have "days_before_month y m + days_in_month y m \<le> days_in_year y"
    using month_cases [OF assms(1,2)]
    by (elim disjE; simp add: days_before_month_def DAYS_BEFORE_MONTH_def days_in_month_def
        DAYS_IN_MONTH_def days_in_year_def)
  with assms(3) show ?thesis by simp
qed

lemma date_lt_toordinal:
  assumes a: "check_date_fields (year a) (month a) (day a)"
    and b: "check_date_fields (year b) (month b) (day b)"
    and lt: "date_lt a b"
  shows "toordinal a < toordinal b"
proof -
  from a have ma: "1 \<le> month a" "month a \<le> 12" and da: "1 \<le> day a"
    "day a \<le> days_in_month (year a) (month a)"
    by (simp_all add: check_date_fields_def)
  from b have mb: "1 \<le> month b" "month b \<le> 12" and db: "1 \<le> day b"
    by (simp_all add: check_date_fields_def)
  from lt consider (y) "year a < year b"
    | (m) "year a = year b" "month a < month b"
    | (d) "year a = year b" "month a = month b" "day a < day b"
    unfolding date_lt_def by blast
  then show ?thesis
  proof cases
    case y
    from days_before_year_mono [OF y] day_of_year_le [OF ma da(2)]
      days_before_month_nonneg [OF mb, of "year b"] db
    show ?thesis unfolding toordinal_def ymd2ord_def by linarith
  next
    case m
    from days_before_month_mono [OF ma(1) m(2) mb(2), of "year a"] da(2) db m(1)
    show ?thesis by (simp add: toordinal_def ymd2ord_def)
  next
    case d
    then show ?thesis by (simp add: toordinal_def ymd2ord_def)
  qed
qed

section \<open>The sample records\<close>

lemma df_rows:
  "df = [\<lparr>project_name = ''Brgy. San Jose Road Concreting'', lat = 10.7202, lon = 122.5621,
           target_date = (str_of ''2026-03-15''), progress_pct = 60\<rparr>,
         \<lparr>project_name = ''Sta. Cruz Repair Phase 2'', lat = 10.7310, lon = 122.5500,
           target_date = (str_of ''2026-02-10''), progress_pct = 40\<rparr>,
         \<lparr>project_name = ''Mandurriao-Jaro Link'', lat = 10.7150, lon = 122.5400,
           target_date = (str_of ''2025-12-01''), progress_pct = 100\<rparr>]"
  by (simp add: df_def data_project_name_def data_lat_def data_lon_def data_target_date_def
      data_progress_pct_def upt_conv_Cons numeral_3_eq_3)

lemma sample_targets_valid:
  "check_date_fields 2026 3 15" "check_date_fields 2026 2 10" "check_date_fields 2025 12 1"
  by (simp_all add: check_date_fields_def days_in_month_def DAYS_IN_MONTH_def is_leap_def)

text \<open>
  C9. For the three sample records and an evaluation date strictly before all three
  target dates, the pass over the frame succeeds; the third record is Completed; the first
  two are At Risk or On Track as the third and fourth rule decide for that evaluation
  date, hence neither Completed nor Delayed.
\<close>

theorem sample_records_before_all_targets:
  assumes "check_date_fields (year e) (month e) (day e)"
    and "date_lt e \<lparr>year = 2026, month = 3, day = 15\<rparr>"
    and "date_lt e \<lparr>year = 2026, month = 2, day = 10\<rparr>"
    and "date_lt e \<lparr>year = 2025, month = 12, day = 1\<rparr>"
  shows "\<exists>c1 c2 c3. df_apply e df = Inr [c1, c2, c3]
           \<and> status c3 = ''Completed''
           \<and> status c1 = (if days_between \<lparr>year = 2026, month = 3, day = 15\<rparr> e \<le> 30
                             \<and> progress_pct c1 < 80 then ''At Risk'' else ''On Track'')
           \<and> status c2 = (if days_between \<lparr>year = 2026, month = 2, day = 10\<rparr> e \<le> 30
                             \<and> progress_pct c2 < 80 then ''At Risk'' else ''On Track'')
           \<and> status c1 \<noteq> ''Completed'' \<and> status c1 \<noteq> ''Delayed''
           \<and> status c2 \<noteq> ''Completed'' \<and> status c2 \<noteq> ''Delayed''"
proof -
  have "0 < days_between \<lparr>year = 2026, month = 3, day = 15\<rparr> e"
    using date_lt_toordinal [OF assms(1) _ assms(2)] sample_targets_valid(1)
    by (simp add: days_between_def)
  moreover have "0 < days_between \<lparr>year = 2026, month = 2, day = 10\<rparr> e"
    using date_lt_toordinal [OF assms(1) _ assms(3)] sample_targets_valid(2)
    by (simp add: days_between_def)
  ultimately show ?thesis unfolding df_rows
    by (simp add: determine_project_status_parsed [OF strptime_2026_03_15]
      determine_project_status_parsed [OF strptime_2026_02_10]
      determine_project_status_parsed [OF strptime_2025_12_01] row.extend_def df_apply_def)
qed

theorem sample_records_before_all_targets_witness:
  "check_date_fields 2025 11 1
   \<and> date_lt \<lparr>year = 2025, month = 11, day = 1\<rparr> \<lparr>year = 2026, month = 3, day = 15\<rparr>
   \<and> date_lt \<lparr>year = 2025, month = 11, day = 1\<rparr> \<lparr>year = 2026, month = 2, day = 10\<rparr>
   \<and> date_lt \<lparr>year = 2025, month = 11, day = 1\<rparr> \<lparr>year = 2025, month = 12, day = 1\<rparr>
   \<and> (\<exists>c1 c2 c3. df_apply \<lparr>year = 2025, month = 11, day = 1\<rparr> df = Inr [c1, c2, c3]
           \<and> status c3 = ''Completed''
           \<and> status c1 \<noteq> ''Completed'' \<and> status c1 \<noteq> ''Delayed''
           \<and> status c2 \<noteq> ''Completed'' \<and> status c2 \<noteq> ''Delayed'')"
proof -
  have v: "check_date_fields (year \<lparr>year = 2025, month = 11, day = 1\<rparr>)
             (month \<lparr>year = 2025, month = 11, day = 1\<rparr>) (day \<lparr>year = 2025, month = 11, day = 1\<rparr>)"
    by (simp add: check_date_fields_def days_in_month_def DAYS_IN_MONTH_def is_leap_def)
  have l1: "date_lt \<lparr>year = 2025, month = 11, day = 1\<rparr> \<lparr>year = 2026, month = 3, day = 15\<rparr>"
    and l2: "date_lt \<lparr>year = 2025, month = 11, day = 1\<rparr> \<lparr>year = 2026, month = 2, day = 10\<rparr>"
    and l3: "date_lt \<lparr>year = 2025, month = 11, day = 1\<rparr> \<lparr>year = 2025, month = 12, day = 1\<rparr>"
    by (simp_all add: date_lt_def)
  from sample_records_before_all_targets [OF v l1 l2 l3] v l1 l2 l3
  show ?thesis by auto
qed

text \<open>
  Under that precondition the evaluation date is at least 72 and 105 days before the
  first two targets, so both are in fact On Track.
\<close>

lemma sample_first_two_on_track:
  assumes "check_date_fields (year e) (month e) (day e)"
    and "date_lt e \<lparr>year = 2025, month = 12, day = 1\<rparr>"
  shows "\<exists>c1 c2 c3. df_apply e df = Inr [c1, c2, c3]
           \<and> status c1 = ''On Track'' \<and> status c2 = ''On Track'' \<and> status c3 = ''Completed''"
proof -
  from date_lt_toordinal [OF assms(1) _ assms(2)] sample_targets_valid(3)
  have "toordinal e < 739586"
    by (simp add: toordinal_2025_12_01)
  then have "30 < days_between \<lparr>year = 2026, month = 3, day = 15\<rparr> e"
    "30 < days_between \<lparr>year = 2026, month = 2, day = 10\<rparr> e"
    by (simp_all add: days_between_def toordinal_2026_03_15 toordinal_2026_02_10)
  then show ?thesis unfolding df_rows
    by (simp add: determine_project_status_parsed [OF strptime_2026_03_15]
      determine_project_status_parsed [OF strptime_2026_02_10]
      determine_project_status_parsed [OF strptime_2025_12_01] row.extend_def df_apply_def)
qed

section \<open>Shifting both dates\<close>

text \<open>
  C10. If the target date and the evaluation date are both moved by the same number of
  days \<open>d\<close> (any integer), the classifier returns the same status and colour: the
  two dates enter the result only through their difference in days.
\<close>

theorem translation_invariance:
  assumes "strptime s = Inr t" and "strptime s' = Inr t'"
    and "toordinal t' = toordinal t + d" and "toordinal e' = toordinal e + d"
  shows "determine_project_status s' p e' = determine_project_status s p e"
proof -
  from assms(3,4) have "days_between t' e' = days_between t e"
    by (simp add: days_between_def)
  then show ?thesis
    by (simp add: determine_project_status_parsed [OF assms(1)]
        determine_project_status_parsed [OF assms(2)])
qed

theorem translation_invariance_witness:
  "strptime (str_of ''2026-02-10'') = Inr \<lparr>year = 2026, month = 2, day = 10\<rparr>
   \<and> strptime (str_of ''2026-03-15'') = Inr \<lparr>year = 2026, month = 3, day = 15\<rparr>
   \<and> toordinal \<lparr>year = 2026, month = 3, day = 15\<rparr>
       = toordinal \<lparr>year = 2026, month = 2, day = 10\<rparr> + 33
   \<and> toordinal \<lparr>year = 2026, month = 3, day = 5\<rparr>
       = toordinal \<lparr>year = 2026, month = 1, day = 31\<rparr> + 33
   \<and> determine_project_status (str_of ''2026-03-15'') 40 \<lparr>year = 2026, month = 3, day = 5\<rparr>
       = determine_project_status (str_of ''2026-02-10'') 40 \<lparr>year = 2026, month = 1, day = 31\<rparr>
   \<and> determine_project_status (str_of ''2026-02-10'') 40 \<lparr>year = 2026, month = 1, day = 31\<rparr>
       = Inr (''At Risk'', [255, 165, 0, 160])"
proof -
  have o1: "toordinal \<lparr>year = 2026, month = 3, day = 15\<rparr>
       = toordinal \<lparr>year = 2026, month = 2, day = 10\<rparr> + 33"
    by (simp add: date_eval)
  have o2: "toordinal \<lparr>year = 2026, month = 3, day = 5\<rparr>
       = toordinal \<lparr>year = 2026, month = 1, day = 31\<rparr> + 33"
    by (simp add: date_eval)
  have r: "determine_project_status (str_of ''2026-02-10'') 40 \<lparr>year = 2026, month = 1, day = 31\<rparr>
       = Inr (''At Risk'', [255, 165, 0, 160])"
    by (simp add: determine_project_status_parsed [OF strptime_2026_02_10] date_eval)
  from translation_invariance [OF strptime_2026_02_10 strptime_2026_03_15 o1 o2, of 40]
    strptime_2026_02_10 strptime_2026_03_15 o1 o2 r
  show ?thesis by simp
qed

end
